theory Spec2Isabelle
  imports Main "HOL-Library.AList" "HOL-Library.Sublist"
begin

section \<open>The Ajax comment view of fluent_comments\<close>

text \<open>
  The development embeds \<^verbatim>\<open>fluent_comments/views.py\<close>: the view
  \<^verbatim>\<open>post_comment_ajax\<close> and its helpers \<^verbatim>\<open>_ajax_result\<close> and
  \<^verbatim>\<open>_render_errors\<close>. The view is glue over the web framework: the model
  registry, the object manager, the comment form, the signal receivers, the template
  renderer and the storage engine are collaborators, collected in the record \<open>env\<close>.
  The model covers the runs in which the collaborators return; the exceptions the view
  itself catches (the \<^verbatim>\<open>try\<close> block around the target lookup) are values of
  type \<open>exc\<close>. The decorators \<^verbatim>\<open>csrf_protect\<close> and \<^verbatim>\<open>require_POST\<close> run
  before the body of the view and are not part of it.
\<close>

subsection \<open>Python values and text\<close>

text \<open>What a signal receiver may return.\<close>

datatype pyval = PyNone | PyBool bool | PyInt int | PyStr string

text \<open>
  The test \<^verbatim>\<open>response == False\<close>. Python's \<^verbatim>\<open>bool\<close> is a subtype of
  \<^verbatim>\<open>int\<close>, so \<^verbatim>\<open>0 == False\<close> holds as well; \<^verbatim>\<open>None\<close> and strings are
  never equal to \<^verbatim>\<open>False\<close>.
\<close>

fun eq_False :: "pyval \<Rightarrow> bool" where
  "eq_False (PyBool b) = (\<not> b)"
| "eq_False (PyInt n) = (n = 0)"
| "eq_False PyNone = False"
| "eq_False (PyStr s) = False"

text \<open>
  \<^verbatim>\<open>django.utils.html.escape\<close>: the five characters \<^verbatim>\<open>& < > " '\<close> are
  replaced by their HTML entities.
\<close>

definition escape_char :: "char \<Rightarrow> string" where
  "escape_char c =
     (if c = CHR ''&'' then ''&amp;''
      else if c = CHR ''<'' then ''&lt;''
      else if c = CHR ''>'' then ''&gt;''
      else if c = CHR 0x22 then ''&quot;''
      else if c = CHR 0x27 then ''&#39;''
      else [c])"

definition escape :: "string \<Rightarrow> string" where
  "escape s = concat (map escape_char s)"

text \<open>
  The conversion \<^verbatim>\<open>%r\<close> of Python 2 on a byte string: the text between quotes,
  the quote and the backslash escaped, tab, newline and carriage return by letter, every
  other character outside the printable ASCII range as \<^verbatim>\<open>\xNN\<close>. The quote
  is the single quote unless the text holds a single quote and no double quote. On a
  unicode string the same text follows the letter \<^verbatim>\<open>u\<close> (characters here are
  the code points below 256).
\<close>

definition hex_digit :: "nat \<Rightarrow> char" where
  "hex_digit n = (''0123456789abcdef'' ! (n mod 16))"

definition repr_quote :: "string \<Rightarrow> char" where
  "repr_quote s = (if CHR 0x27 \<in> set s \<and> CHR 0x22 \<notin> set s then CHR 0x22 else CHR 0x27)"

definition repr_char :: "char \<Rightarrow> char \<Rightarrow> string" where
  "repr_char q c =
     (if c = q \<or> c = CHR 0x5C then [CHR 0x5C, c]
      else if c = CHR 0x09 then [CHR 0x5C, CHR ''t'']
      else if c = CHR 0x0A then [CHR 0x5C, CHR ''n'']
      else if c = CHR 0x0D then [CHR 0x5C, CHR ''r'']
      else if (of_char c :: nat) < 32 \<or> 127 \<le> (of_char c :: nat)
        then [CHR 0x5C, CHR ''x'', hex_digit (of_char c div 16), hex_digit (of_char c)]
      else [c])"

definition repr_str :: "string \<Rightarrow> string" where
  "repr_str s = (let q = repr_quote s in [q] @ concat (map (repr_char q) s) @ [q])"

definition repr_unicode :: "string \<Rightarrow> string" where
  "repr_unicode s = CHR ''u'' # repr_str s"

text \<open>
  The characters \<^verbatim>\<open>%r\<close> copies as they are whatever the quote: printable ASCII
  but the backslash and the two quotes.
\<close>

definition plain :: "char \<Rightarrow> bool" where
  "plain c \<longleftrightarrow>
     32 \<le> (of_char c :: nat) \<and> (of_char c :: nat) < 127
     \<and> c \<noteq> CHR 0x5C \<and> c \<noteq> CHR 0x27 \<and> c \<noteq> CHR 0x22"


text \<open>
  \<^verbatim>\<open>ctype.split(".", 1)\<close>: at most one split, at the first dot; a text without
  a dot is returned whole, as the only part.
\<close>

definition split1 :: "string \<Rightarrow> string list" where
  "split1 s =
     (if CHR ''.'' \<in> set s
      then [takeWhile (\<lambda>c. c \<noteq> CHR ''.'') s, tl (dropWhile (\<lambda>c. c \<noteq> CHR ''.'') s)]
      else [s])"

subsection \<open>Requests, targets, forms and comments\<close>

text \<open>
  The posted fields: a \<^verbatim>\<open>QueryDict\<close> read with \<^verbatim>\<open>get\<close>, written with
  \<^verbatim>\<open>data[key] = value\<close> and tested with \<^verbatim>\<open>key in data\<close>; each key is
  mapped to the value \<^verbatim>\<open>get\<close> returns for it.
\<close>

type_synonym querydict = "string \<rightharpoonup> string"

record user =
  is_authenticated :: bool
  get_full_name :: string
  username :: string
  email :: string

record request =
  is_ajax :: bool
  POST :: querydict
  user :: user
  META :: querydict

datatype model = Model string string

datatype target = TargetObject model string

text \<open>The exception classes the view catches around the lookup of the target.\<close>

datatype exc = TypeError | AttributeError | ObjectDoesNotExist | ValueError | ValidationError

fun class_name :: "exc \<Rightarrow> string" where
  "class_name TypeError = ''TypeError''"
| "class_name AttributeError = ''AttributeError''"
| "class_name ObjectDoesNotExist = ''ObjectDoesNotExist''"
| "class_name ValueError = ''ValueError''"
| "class_name ValidationError = ''ValidationError''"

text \<open>
  An error dictionary maps a field name to the messages of that field; the keys are
  listed in the order the dictionary iterates them.
\<close>

type_synonym error_dict = "(string \<times> string list) list"

text \<open>
  The bound comment form, as the view reads it: the target and the data it was
  constructed with, \<^verbatim>\<open>form.security_errors()\<close>, \<^verbatim>\<open>form.errors\<close> and the
  cleaned data of a valid form.
\<close>

record form =
  target_object :: target
  data :: querydict
  security_errors :: error_dict
  errors :: error_dict
  cleaned_data :: "(string \<times> string) list"

record comment =
  comment_id :: "int option"
  ip_address :: "string option"
  comment_user :: "user option"
  content_object :: target
  comment_fields :: "(string \<times> string) list"

text \<open>
  Modelled from the spec: \<^verbatim>\<open>form.get_comment_object()\<close> belongs to the form layer
  of the framework and is not in the repository. By the spec the Comment is
  ``constructed by the external form layer from SubmissionRequest + TargetEntity'' and
  ``created transiently; persisted only on the post path'': a new object that refers to
  the target, holds the cleaned fields and has no identifier, no address and no user yet.
\<close>

definition get_comment_object :: "form \<Rightarrow> comment" where
  "get_comment_object f =
     \<lparr>comment_id = None, ip_address = None, comment_user = None,
      content_object = target_object f, comment_fields = cleaned_data f\<rparr>"

text \<open>
  A signal receiver: a callable, with what it returns when called. A function has a
  \<^verbatim>\<open>__name__\<close>; other callables (an instance with \<^verbatim>\<open>__call__\<close>, a partial
  application) have none, and reading the attribute raises \<^verbatim>\<open>AttributeError\<close>.
\<close>

record receiver =
  receiver_name :: "string option"
  receiver_call :: "comment \<Rightarrow> request \<Rightarrow> pyval"

text \<open>The values a template context holds.\<close>

datatype ctx = CField form string | CBool bool | CStr string | CComment comment

datatype json = JNull | JBool bool | JInt int | JStr string | JObj "(string \<times> json) list"

text \<open>
  The three responses of the view, each with the arguments it is constructed with: the
  content of a \<^verbatim>\<open>HttpResponseBadRequest\<close>; the reason given to a
  \<^verbatim>\<open>CommentPostBadRequest\<close>, the framework's subclass of the former; the document
  handed to \<^verbatim>\<open>simplejson.dumps\<close> and the mimetype of a \<^verbatim>\<open>HttpResponse\<close>. The
  members of a JSON object are listed in the order of the dictionary literal.
  The fourth outcome is an exception that leaves the view uncaught, which the framework
  answers as a server error.
\<close>

datatype response =
    HttpResponseBadRequest string
  | CommentPostBadRequest string
  | HttpResponse json string
  | Uncaught exc

fun status_code :: "response \<Rightarrow> nat" where
  "status_code (HttpResponseBadRequest why) = 400"
| "status_code (CommentPostBadRequest why) = 400"
| "status_code (HttpResponse body mimetype) = 200"
| "status_code (Uncaught ex) = 500"

text \<open>
  What the view does to its collaborators, in order: the query for the target, the
  construction of the form, every call of a receiver of a signal, the write of the
  comment.
\<close>

datatype event =
    TargetQueried model string
  | FormConstructed
  | Called string "string option"
  | Saved comment

fun is_write :: "event \<Rightarrow> bool" where
  "is_write (Saved c) = True"
| "is_write (TargetQueried m pk) = False"
| "is_write FormConstructed = False"
| "is_write (Called signal name) = False"

definition writes :: "event list \<Rightarrow> event list" where
  "writes log = filter is_write log"

text \<open>
  The collaborators: \<^verbatim>\<open>models.get_model\<close> (\<open>None\<close> for an unknown model),
  \<^verbatim>\<open>model._default_manager.using(using).get(pk=...)\<close> with the exception it may
  raise, \<^verbatim>\<open>comments.get_form()\<close>, \<^verbatim>\<open>str\<close> of an error dictionary, the
  receivers connected to the two signals in the order of their registration,
  \<^verbatim>\<open>render_to_string\<close> (with the request of a \<^verbatim>\<open>RequestContext\<close> when one is
  given), the setting \<^verbatim>\<open>appsettings.CRISPY_TEMPLATE_PACK\<close>, and the identifier the
  storage engine gives a comment it inserts.
\<close>

record env =
  get_model :: "string \<Rightarrow> string \<Rightarrow> model option"
  manager_get :: "model \<Rightarrow> string option \<Rightarrow> string \<Rightarrow> exc + target"
  get_form :: "target \<Rightarrow> querydict \<Rightarrow> form"
  errors_str :: "error_dict \<Rightarrow> string"
  comment_will_be_posted :: "receiver list"
  comment_was_posted :: "receiver list"
  render_to_string :: "string \<Rightarrow> (string \<times> ctx) list \<Rightarrow> request option \<Rightarrow> string"
  CRISPY_TEMPLATE_PACK :: string
  insert_id :: "comment \<Rightarrow> int"

text \<open>
  Modelled from the spec: \<^verbatim>\<open>comment.save()\<close> is the persistence layer's; the
  spec's envelope carries ``the persisted comment's identifier'', so a comment without
  identifier gets the one the storage engine assigns, and one that has an identifier
  keeps it.
\<close>

definition save :: "env \<Rightarrow> comment \<Rightarrow> comment" where
  "save e c =
     (case comment_id c of
        None \<Rightarrow> c\<lparr>comment_id := Some (insert_id e c)\<rparr>
      | Some i \<Rightarrow> c)"

text \<open>
  \<^verbatim>\<open>Signal.send\<close> of the framework: every connected receiver is called, in the
  order of registration, and the pairs of receiver and response are returned; the view
  iterates over these pairs. The second component records the calls.
\<close>

definition send ::
  "string \<Rightarrow> receiver list \<Rightarrow> comment \<Rightarrow> request \<Rightarrow> (receiver \<times> pyval) list \<times> event list" where
  "send signal receivers c req =
     (map (\<lambda>r. (r, receiver_call r c req)) receivers,
      map (\<lambda>r. Called signal (receiver_name r)) receivers)"

subsection \<open>The view\<close>

text \<open>
  Lines 34 to 39: the copy of the posted fields, with name and email filled in from an
  authenticated user when they are missing or empty.
\<close>

definition initial_data :: "request \<Rightarrow> querydict" where
  "initial_data req =
     (let d = POST req in
      if is_authenticated (user req) then
        let d = (if (case d ''name'' of None \<Rightarrow> '''' | Some v \<Rightarrow> v) = ''''
                 then d(''name'' \<mapsto>
                        (if get_full_name (user req) \<noteq> '''' then get_full_name (user req)
                         else username (user req)))
                 else d) in
        (if (case d ''email'' of None \<Rightarrow> '''' | Some v \<Rightarrow> v) = ''''
         then d(''email'' \<mapsto> email (user req))
         else d)
      else d)"

text \<open>
  Lines 47 and 48, the body of the \<^verbatim>\<open>try\<close>: \<^verbatim>\<open>get_model\<close> takes the two
  parts of the identifier and raises \<^verbatim>\<open>TypeError\<close> when it is given one; the
  attribute \<^verbatim>\<open>_default_manager\<close> of \<^verbatim>\<open>None\<close> raises
  \<^verbatim>\<open>AttributeError\<close>; the query raises what the manager raises.
\<close>

definition lookup_target ::
  "env \<Rightarrow> string option \<Rightarrow> string \<Rightarrow> string \<Rightarrow> (exc + target) \<times> event list" where
  "lookup_target e using ctype object_pk =
     (case split1 ctype of
        [app_label, model_name] \<Rightarrow>
          (case get_model e app_label model_name of
             None \<Rightarrow> (Inl AttributeError, [])
           | Some m \<Rightarrow> (manager_get e m using object_pk, [TargetQueried m object_pk]))
      | _ \<Rightarrow> (Inl TypeError, []))"

text \<open>Lines 49 to 63: the four \<^verbatim>\<open>except\<close> clauses.\<close>

fun lookup_failed :: "string \<Rightarrow> string \<Rightarrow> exc \<Rightarrow> response" where
  "lookup_failed ctype object_pk TypeError =
     CommentPostBadRequest (''Invalid content_type value: '' @ repr_unicode (escape ctype))"
| "lookup_failed ctype object_pk AttributeError =
     CommentPostBadRequest
       (''The given content-type '' @ repr_unicode (escape ctype) @
        '' does not resolve to a valid model.'')"
| "lookup_failed ctype object_pk ObjectDoesNotExist =
     CommentPostBadRequest
       (''No object matching content-type '' @ repr_unicode (escape ctype) @
        '' and object PK '' @ repr_unicode (escape object_pk) @ '' exists.'')"
| "lookup_failed ctype object_pk e =
     CommentPostBadRequest
       (''Attempting go get content-type '' @ repr_unicode (escape ctype) @
        '' and object PK '' @ repr_unicode (escape object_pk) @ '' exists raised '' @
        class_name e)"

text \<open>
  Lines 150 to 158, \<^verbatim>\<open>_render_errors\<close>; the bound field \<^verbatim>\<open>form[field_name]\<close>
  is the form together with the name.
\<close>

definition render_errors :: "env \<Rightarrow> form \<Rightarrow> string \<Rightarrow> string" where
  "render_errors e f field_name =
     render_to_string e (CRISPY_TEMPLATE_PACK e @ ''/layout/field_errors.html'')
       [(''field'', CField f field_name), (''form_show_errors'', CBool True)] None"

text \<open>
  Lines 125 to 127 of \<^verbatim>\<open>_ajax_result\<close>: the loop over the keys of
  \<^verbatim>\<open>form.errors\<close> that fills the dictionary \<^verbatim>\<open>json_errors\<close>.
\<close>

definition json_errors :: "env \<Rightarrow> form \<Rightarrow> (string \<times> json) list" where
  "json_errors e f =
     fold (\<lambda>field_name acc. AList.update field_name (JStr (render_errors e f field_name)) acc)
       (map fst (errors f)) []"

text \<open>
  Lines 114 to 147, \<^verbatim>\<open>_ajax_result\<close>. A dictionary is true when it is not empty,
  a comment object is true, \<^verbatim>\<open>None\<close> is false.
\<close>

definition ajax_result ::
  "env \<Rightarrow> request \<Rightarrow> form \<Rightarrow> string \<Rightarrow> comment option \<Rightarrow> response" where
  "ajax_result e req f action c =
     (let success = (errors f = []);
          errs = (if errors f \<noteq> [] then json_errors e f else []);
          comment_html =
            (case c of
               None \<Rightarrow> JNull
             | Some c' \<Rightarrow>
                 JStr (render_to_string e ''comments/comment.html''
                   [(''comment'', CComment c'), (''action'', CStr action),
                    (''preview'', CBool (action = ''preview''))] (Some req)))
      in HttpResponse
           (JObj [(''success'', JBool success),
                  (''action'', JStr action),
                  (''errors'', JObj errs),
                  (''html'', comment_html),
                  (''comment_id'',
                     (case c of
                        None \<Rightarrow> JNull
                      | Some c' \<Rightarrow> (case comment_id c' of None \<Rightarrow> JNull | Some i \<Rightarrow> JInt i)))])
           ''application/json'')"

text \<open>Lines 86 to 89: the comment that is about to be saved.\<close>

definition new_comment :: "request \<Rightarrow> form \<Rightarrow> comment" where
  "new_comment req f =
     (let c = get_comment_object f;
          c = c\<lparr>ip_address := META req ''REMOTE_ADDR''\<rparr>
      in if is_authenticated (user req) then c\<lparr>comment_user := Some (user req)\<rparr> else c)"

text \<open>Lines 98 to 101: the first response that equals \<^verbatim>\<open>False\<close> ends the loop.\<close>

fun killed_by :: "(receiver \<times> pyval) list \<Rightarrow> receiver option" where
  "killed_by [] = None"
| "killed_by ((r, response) # rest) = (if eq_False response then Some r else killed_by rest)"

text \<open>Lines 18 to 111. The result is the response and the record of what was done.\<close>

definition post_comment_ajax ::
  "env \<Rightarrow> request \<Rightarrow> string option \<Rightarrow> response \<times> event list" where
  "post_comment_ajax e req using =
     (if \<not> is_ajax req then (HttpResponseBadRequest ''Expecting Ajax call'', [])
      else
        let d = initial_data req in
        case (d ''content_type'', d ''object_pk'') of
          (Some ctype, Some object_pk) \<Rightarrow>
            (case lookup_target e using ctype object_pk of
               (Inl ex, log) \<Rightarrow> (lookup_failed ctype object_pk ex, log)
             | (Inr tgt, log) \<Rightarrow>
                 let preview = (d ''preview'' \<noteq> None);
                     f = get_form e tgt d;
                     log = log @ [FormConstructed]
                 in
                 if security_errors f \<noteq> [] then
                   (CommentPostBadRequest
                      (''The comment form failed security verification: '' @
                       escape (errors_str e (security_errors f))), log)
                 else if preview then
                   (ajax_result e req f ''preview''
                      (if errors f = [] then Some (get_comment_object f) else None), log)
                 else if errors f \<noteq> [] then
                   (ajax_result e req f ''post'' None, log)
                 else
                   let c = new_comment req f;
                       (responses, calls) = send ''comment_will_be_posted''
                                              (comment_will_be_posted e) c req;
                       log = log @ calls
                   in
                   (case killed_by responses of
                      Some r \<Rightarrow>
                        (case receiver_name r of
                           None \<Rightarrow> (Uncaught AttributeError, log)
                         | Some name \<Rightarrow>
                             (CommentPostBadRequest
                                (''comment_will_be_posted receiver '' @ repr_str name @
                                 '' killed the comment''), log))
                    | None \<Rightarrow>
                        let c = save e c;
                            log = log @ [Saved c];
                            (responses', calls') = send ''comment_was_posted''
                                                     (comment_was_posted e) c req
                        in (ajax_result e req f ''post'' (Some c), log @ calls')))
        | (_, _) \<Rightarrow> (CommentPostBadRequest ''Missing content_type or object_pk field.'', []))"

subsection \<open>Reading requests and responses\<close>

text \<open>
  The target of a request, when the view comes as far as resolving it: the request is an
  Ajax call, both fields are in the working set and the lookup returns an object.
\<close>

definition resolved_target :: "env \<Rightarrow> request \<Rightarrow> string option \<Rightarrow> target option" where
  "resolved_target e req using =
     (if \<not> is_ajax req then None
      else
        (case (initial_data req ''content_type'', initial_data req ''object_pk'') of
           (Some ctype, Some object_pk) \<Rightarrow>
             (case fst (lookup_target e using ctype object_pk) of
                Inl ex \<Rightarrow> None
              | Inr tgt \<Rightarrow> Some tgt)
         | (_, _) \<Rightarrow> None))"

text \<open>The form the view constructs for a request with a resolvable target.\<close>

definition bound_form :: "env \<Rightarrow> request \<Rightarrow> string option \<Rightarrow> form option" where
  "bound_form e req using =
     (case resolved_target e req using of
        None \<Rightarrow> None
      | Some tgt \<Rightarrow> Some (get_form e tgt (initial_data req)))"

text \<open>The message a bad request was constructed with; a JSON response has none.\<close>

fun why :: "response \<Rightarrow> string option" where
  "why (HttpResponseBadRequest w) = Some w"
| "why (CommentPostBadRequest w) = Some w"
| "why (HttpResponse body mimetype) = None"
| "why (Uncaught ex) = None"

text \<open>The member \<^verbatim>\<open>action\<close> of the JSON envelope of a response.\<close>

fun action_of :: "response \<Rightarrow> string option" where
  "action_of (HttpResponse (JObj members) mimetype) =
     (case map_of members ''action'' of Some (JStr a) \<Rightarrow> Some a | _ \<Rightarrow> None)"
| "action_of r = None"

text \<open>The calls of receivers recorded in a log.\<close>

fun is_call :: "event \<Rightarrow> bool" where
  "is_call (Called signal name) = True"
| "is_call (Saved c) = False"
| "is_call (TargetQueried m pk) = False"
| "is_call FormConstructed = False"

text \<open>
  A receiver vetoes a comment when its response equals \<^verbatim>\<open>False\<close>, as the loop of
  the view tests it.
\<close>

definition vetoes :: "request \<Rightarrow> comment \<Rightarrow> receiver \<Rightarrow> bool" where
  "vetoes req c r = eq_False (receiver_call r c req)"

subsection \<open>A small installation\<close>

text \<open>
  One model, \<^verbatim>\<open>blog.entry\<close>, with one object of key \<^verbatim>\<open>1\<close>; the key
  \<^verbatim>\<open>one\<close> is malformed. The form requires a comment text and checks a security hash.
  The renderer writes the name of the template and then what it is given to show: the
  name of the field, the flags and texts of the context, the fields of the comment.
\<close>

fun demo_show :: "ctx \<Rightarrow> string" where
  "demo_show (CField f name) = name"
| "demo_show (CBool b) = (if b then ''True'' else ''False'')"
| "demo_show (CStr s) = s"
| "demo_show (CComment c) = concat (map snd (comment_fields c))"

definition demo_render :: "string \<Rightarrow> (string \<times> ctx) list \<Rightarrow> request option \<Rightarrow> string" where
  "demo_render template context r =
     template @ concat (map (\<lambda>(k, v). '' '' @ k @ ''='' @ demo_show v) context)"

definition demo_form :: "target \<Rightarrow> querydict \<Rightarrow> form" where
  "demo_form t d =
     \<lparr>target_object = t, data = d,
      security_errors =
        (if d ''security_hash'' = Some ''good'' then []
         else [(''security_hash'', [''Security hash check failed.''])]),
      errors =
        (if d ''security_hash'' = Some ''good'' then []
         else [(''security_hash'', [''Security hash check failed.''])]) @
        (if d ''comment'' = None \<or> d ''comment'' = Some []
         then [(''comment'', [''This field is required.''])] else []),
      cleaned_data = [(''comment'', (case d ''comment'' of None \<Rightarrow> [] | Some v \<Rightarrow> v))]\<rparr>"

definition demo_env :: "receiver list \<Rightarrow> env" where
  "demo_env pre =
     \<lparr>get_model = (\<lambda>a m. if a = ''blog'' \<and> m = ''entry'' then Some (Model a m) else None),
      manager_get =
        (\<lambda>m using pk.
           if pk = ''1'' then Inr (TargetObject m pk)
           else if pk = ''one'' then Inl ValueError
           else Inl ObjectDoesNotExist),
      get_form = demo_form,
      errors_str = (\<lambda>ed. concat (map fst ed)),
      comment_will_be_posted = pre,
      comment_was_posted = [],
      render_to_string = demo_render,
      CRISPY_TEMPLATE_PACK = ''bootstrap'',
      insert_id = (\<lambda>c. 7)\<rparr>"

definition anonymous :: user where
  "anonymous = \<lparr>is_authenticated = False, get_full_name = [], username = [], email = []\<rparr>"

definition demo_request :: "bool \<Rightarrow> (string \<times> string) list \<Rightarrow> request" where
  "demo_request ajax posted =
     \<lparr>is_ajax = ajax, POST = map_of posted, user = anonymous,
      META = [''REMOTE_ADDR'' \<mapsto> ''127.0.0.1'']\<rparr>"

definition allow :: receiver where
  "allow = \<lparr>receiver_name = Some ''allow'', receiver_call = (\<lambda>c r. PyNone)\<rparr>"

definition spam_filter :: receiver where
  "spam_filter =
     \<lparr>receiver_name = Some ''spam_filter'', receiver_call = (\<lambda>c r. PyBool False)\<rparr>"

definition audit :: receiver where
  "audit = \<lparr>receiver_name = Some ''audit'', receiver_call = (\<lambda>c r. PyBool True)\<rparr>"

text \<open>A callable object without \<^verbatim>\<open>__name__\<close> that rejects every comment.\<close>

definition blocker :: receiver where
  "blocker = \<lparr>receiver_name = None, receiver_call = (\<lambda>c r. PyBool False)\<rparr>"

section \<open>Properties of the view\<close>

subsection \<open>Auxiliary facts\<close>

lemmas demo_defs =
  demo_env_def demo_request_def demo_form_def anonymous_def allow_def spam_filter_def audit_def

lemma map_of_fold_update:
  "map_of (fold (\<lambda>k acc. AList.update k (g k) acc) ks acc0) k =
     (if k \<in> set ks then Some (g k) else map_of acc0 k)"
  by (induction ks arbitrary: acc0) (auto simp: update_conv')

lemma plain_not_control:
  assumes "plain c"
  shows "c \<noteq> CHR 0x09" "c \<noteq> CHR 0x0A" "c \<noteq> CHR 0x0D"
    "\<not> ((of_char c :: nat) < 32 \<or> 127 \<le> (of_char c :: nat))"
  using assms by (auto simp: plain_def)

lemma repr_char_plain: "plain c \<Longrightarrow> repr_char (CHR 0x27) c = [c]"
  using plain_not_control [of c] by (simp add: repr_char_def plain_def)

lemma repr_quote_plain: "\<forall>c\<in>set s. plain c \<Longrightarrow> repr_quote s = CHR 0x27"
  by (auto simp: repr_quote_def plain_def)

lemma concat_map_single: "(\<forall>c\<in>set s. g c = [c]) \<Longrightarrow> concat (map g s) = s"
  by (induction s) simp_all

lemma repr_str_plain:
  assumes "\<forall>c\<in>set s. plain c"
  shows "repr_str s = [CHR 0x27] @ s @ [CHR 0x27]"
proof -
  have "concat (map (repr_char (CHR 0x27)) s) = s"
    using assms by (intro concat_map_single) (simp add: repr_char_plain)
  then show ?thesis
    by (simp add: repr_str_def Let_def repr_quote_plain [OF assms])
qed















lemma update_fresh: "k \<notin> fst ` set al \<Longrightarrow> AList.update k v al = al @ [(k, v)]"
  by (induction al) auto

lemma fold_update_distinct:
  assumes "distinct ks" and "set ks \<inter> fst ` set acc = {}"
  shows "fold (\<lambda>k acc. AList.update k (g k) acc) ks acc = acc @ map (\<lambda>k. (k, g k)) ks"
  using assms
proof (induction ks arbitrary: acc)
  case Nil
  then show ?case by simp
next
  case (Cons k ks)
  have "k \<notin> fst ` set acc" using Cons.prems(2) by auto
  then have u: "AList.update k (g k) acc = acc @ [(k, g k)]" by (rule update_fresh)
  have "set ks \<inter> fst ` set (acc @ [(k, g k)]) = {}"
    using Cons.prems by auto
  with Cons.IH [of "acc @ [(k, g k)]"] Cons.prems(1) u show ?case by simp
qed

lemma writes_append: "writes (xs @ ys) = writes xs @ writes ys"
  by (simp add: writes_def)

lemma writes_calls: "writes (map (\<lambda>r. Called signal (receiver_name r)) rs) = []"
  by (induction rs) (simp_all add: writes_def)

lemma writes_send: "writes (snd (send signal rs c req)) = []"
  by (simp add: send_def writes_calls)

lemma killed_by_None:
  "killed_by (map (\<lambda>r. (r, receiver_call r c req)) rs) = None \<longleftrightarrow>
     (\<forall>r\<in>set rs. \<not> vetoes req c r)"
  by (induction rs) (simp_all add: vetoes_def)

lemma explicit_False_vetoes: "receiver_call r c req = PyBool False \<Longrightarrow> vetoes req c r"
  by (simp add: vetoes_def)

lemma killed_by_first:
  assumes "\<forall>x\<in>set before. \<not> vetoes req c x" and "vetoes req c r"
  shows "killed_by (map (\<lambda>r. (r, receiver_call r c req)) (before @ r # after)) = Some r"
  using assms by (induction before) (simp_all add: vetoes_def)

lemma lookup_target_found:
  assumes "lookup_target e using ctype pk = (Inr tgt, log)"
  shows "\<exists>m. log = [TargetQueried m pk]"
  using assms
  by (auto simp: lookup_target_def split: list.splits option.splits)

lemma lookup_target_log_writes: "writes (snd (lookup_target e using ctype pk)) = []"
  by (auto simp: lookup_target_def writes_def split: list.splits option.splits)

lemma post_not_ajax:
  "\<not> is_ajax req \<Longrightarrow>
     post_comment_ajax e req using = (HttpResponseBadRequest ''Expecting Ajax call'', [])"
  by (simp add: post_comment_ajax_def)

lemma post_missing:
  assumes "is_ajax req"
    and "initial_data req ''content_type'' = None \<or> initial_data req ''object_pk'' = None"
  shows "post_comment_ajax e req using =
           (CommentPostBadRequest ''Missing content_type or object_pk field.'', [])"
  using assms by (auto simp: post_comment_ajax_def Let_def split: option.splits)

lemma post_lookup_failed:
  assumes "is_ajax req"
    and "initial_data req ''content_type'' = Some ctype"
    and "initial_data req ''object_pk'' = Some pk"
    and "lookup_target e using ctype pk = (Inl ex, log)"
  shows "post_comment_ajax e req using = (lookup_failed ctype pk ex, log)"
  using assms by (simp add: post_comment_ajax_def Let_def)

text \<open>The rest of the view, once the target is there.\<close>

lemma post_resolved:
  assumes "is_ajax req"
    and "initial_data req ''content_type'' = Some ctype"
    and "initial_data req ''object_pk'' = Some pk"
    and "lookup_target e using ctype pk = (Inr tgt, log)"
    and "f = get_form e tgt (initial_data req)"
  shows "post_comment_ajax e req using =
     (if security_errors f \<noteq> [] then
        (CommentPostBadRequest
           (''The comment form failed security verification: '' @
            escape (errors_str e (security_errors f))), log @ [FormConstructed])
      else if initial_data req ''preview'' \<noteq> None then
        (ajax_result e req f ''preview''
           (if errors f = [] then Some (get_comment_object f) else None),
         log @ [FormConstructed])
      else if errors f \<noteq> [] then
        (ajax_result e req f ''post'' None, log @ [FormConstructed])
      else
        (case killed_by (fst (send ''comment_will_be_posted'' (comment_will_be_posted e)
                                (new_comment req f) req)) of
           Some r \<Rightarrow>
             ((case receiver_name r of
                 None \<Rightarrow> Uncaught AttributeError
               | Some name \<Rightarrow>
                   CommentPostBadRequest
                     (''comment_will_be_posted receiver '' @ repr_str name @
                      '' killed the comment'')),
              log @ [FormConstructed] @
                snd (send ''comment_will_be_posted'' (comment_will_be_posted e)
                       (new_comment req f) req))
         | None \<Rightarrow>
             (ajax_result e req f ''post'' (Some (save e (new_comment req f))),
              log @ [FormConstructed] @
                snd (send ''comment_will_be_posted'' (comment_will_be_posted e)
                       (new_comment req f) req) @
                [Saved (save e (new_comment req f))] @
                snd (send ''comment_was_posted'' (comment_was_posted e)
                       (save e (new_comment req f)) req))))"
  using assms
  by (simp add: post_comment_ajax_def Let_def send_def split: option.splits)

lemma bound_formD:
  assumes "bound_form e req using = Some f"
  obtains ctype pk tgt m where "is_ajax req"
    and "initial_data req ''content_type'' = Some ctype"
    and "initial_data req ''object_pk'' = Some pk"
    and "lookup_target e using ctype pk = (Inr tgt, [TargetQueried m pk])"
    and "f = get_form e tgt (initial_data req)"
proof -
  from assms obtain tgt where t: "resolved_target e req using = Some tgt"
    and f: "f = get_form e tgt (initial_data req)"
    by (auto simp: bound_form_def split: option.splits)
  from t obtain ctype pk where a: "is_ajax req"
    and c: "initial_data req ''content_type'' = Some ctype"
    and p: "initial_data req ''object_pk'' = Some pk"
    and l: "fst (lookup_target e using ctype pk) = Inr tgt"
    by (auto simp: resolved_target_def split: if_splits option.splits sum.splits)
  obtain log where l': "lookup_target e using ctype pk = (Inr tgt, log)"
    using l by (cases "lookup_target e using ctype pk") simp
  from lookup_target_found [OF l'] obtain m where "log = [TargetQueried m pk]" ..
  with a c p l' f that show thesis by blast
qed

lemma bound_form_None:
  assumes "bound_form e req using = None"
  shows "writes (snd (post_comment_ajax e req using)) = []"
proof (cases "is_ajax req")
  case False
  then show ?thesis by (simp add: post_not_ajax writes_def)
next
  case True
  show ?thesis
  proof (cases "initial_data req ''content_type'' = None \<or> initial_data req ''object_pk'' = None")
    case True
    with \<open>is_ajax req\<close> show ?thesis by (simp add: post_missing writes_def)
  next
    case False
    then obtain ctype pk where c: "initial_data req ''content_type'' = Some ctype"
      and p: "initial_data req ''object_pk'' = Some pk" by auto
    obtain r log where l: "lookup_target e using ctype pk = (r, log)"
      by (cases "lookup_target e using ctype pk")
    from assms True c p l obtain ex where "r = Inl ex"
      by (cases r) (auto simp: bound_form_def resolved_target_def)
    with l have "post_comment_ajax e req using = (lookup_failed ctype pk ex, log)"
      using post_lookup_failed [OF True c p] by simp
    moreover have "writes log = []"
      using lookup_target_log_writes l by (metis snd_conv)
    ultimately show ?thesis by simp
  qed
qed


lemma json_errors_lookup:
  "map_of (json_errors e f) name =
     (if name \<in> fst ` set (errors f) then Some (JStr (render_errors e f name)) else None)"
  by (simp add: json_errors_def map_of_fold_update)

lemma json_errors_distinct:
  assumes "distinct (map fst (errors f))"
  shows "json_errors e f =
           map (\<lambda>name. (name, JStr (render_errors e f name))) (map fst (errors f))"
  using fold_update_distinct [OF assms, of "[]" "\<lambda>name. JStr (render_errors e f name)"]
  by (simp add: json_errors_def)

lemma json_errors_keys: "fst ` set (json_errors e f) = fst ` set (errors f)"
proof -
  have "dom (map_of (json_errors e f)) = fst ` set (errors f)"
    by (auto simp: json_errors_lookup dom_def)
  then show ?thesis by (simp add: dom_map_of_conv_image_fst)
qed

lemma json_errors_nonempty: "errors f \<noteq> [] \<Longrightarrow> json_errors e f \<noteq> []"
  using json_errors_keys [of e f] by (cases "errors f") auto

subsection \<open>The claims\<close>

text \<open>
  C9, as amended. A request that is not an Ajax call is answered at once, before
  anything else is done (the log is empty), by a plain \<^verbatim>\<open>HttpResponseBadRequest\<close>
  (status 400) whose content is \<^verbatim>\<open>Expecting Ajax call\<close>.
\<close>

theorem not_ajax_expecting_ajax_call:
  assumes "\<not> is_ajax req"
  shows "post_comment_ajax e req u = (HttpResponseBadRequest ''Expecting Ajax call'', [])
         \<and> status_code (fst (post_comment_ajax e req u)) = 400"
  using assms by (simp add: post_not_ajax)

theorem not_ajax_expecting_ajax_call_witness:
  "post_comment_ajax (demo_env []) (demo_request False []) None =
     (HttpResponseBadRequest ''Expecting Ajax call'', [])
   \<and> status_code (fst (post_comment_ajax (demo_env []) (demo_request False []) None)) = 400"
  using not_ajax_expecting_ajax_call [of "demo_request False []" "demo_env []" None]
  by (simp add: demo_request_def)

text \<open>
  C9, as stated, fails on the message of the response: for a request that is not an
  Ajax call the message of the view is not \<^verbatim>\<open>not an async call\<close>.
\<close>

theorem not_ajax_message_counterexample:
  "\<not> is_ajax (demo_request False [])
   \<and> why (fst (post_comment_ajax (demo_env []) (demo_request False []) None))
       \<noteq> Some ''not an async call''"
  by (simp add: demo_request_def post_comment_ajax_def)

text \<open>
  C3. When the working set of fields of an Ajax request lacks \<^verbatim>\<open>content_type\<close>
  or \<^verbatim>\<open>object_pk\<close>, the response is the bad request (status 400) with the
  message \<^verbatim>\<open>Missing content_type or object_pk field.\<close>, and nothing else was
  done: no lookup, no form, no signal, no write (the log is empty).
\<close>

theorem missing_target_fields:
  assumes "is_ajax req"
    and "initial_data req ''content_type'' = None \<or> initial_data req ''object_pk'' = None"
  shows "post_comment_ajax e req u =
           (CommentPostBadRequest ''Missing content_type or object_pk field.'', [])
         \<and> status_code (fst (post_comment_ajax e req u)) = 400
         \<and> (\<exists>w. why (fst (post_comment_ajax e req u)) = Some w
                \<and> sublist ''Missing content_type or object_pk field.'' w)"
  using assms by (simp add: post_missing)

theorem missing_target_fields_witness:
  "post_comment_ajax (demo_env [allow]) (demo_request True [(''content_type'', ''blog.entry'')]) None =
     (CommentPostBadRequest ''Missing content_type or object_pk field.'', [])"
  using missing_target_fields
    [of "demo_request True [(''content_type'', ''blog.entry'')]" "demo_env [allow]" None]
  by (simp add: demo_request_def initial_data_def anonymous_def)


text \<open>
  C8. When the form of a request with a resolvable target reports security errors, the
  response is the bad request (status 400, no JSON envelope) whose message holds
  \<^verbatim>\<open>comment form failed security verification\<close> and ends with the escaped text
  of the security errors. Nothing is assumed about the preview flag: the check comes before
  the branch on it. Only the target query and the construction of the form were done: no
  receiver was called and nothing was written.
\<close>

theorem security_errors_bad_request:
  assumes "bound_form e req u = Some f" and "security_errors f \<noteq> []"
  shows "fst (post_comment_ajax e req u) =
           CommentPostBadRequest
             (''The comment form failed security verification: '' @
              escape (errors_str e (security_errors f)))
         \<and> status_code (fst (post_comment_ajax e req u)) = 400
         \<and> action_of (fst (post_comment_ajax e req u)) = None
         \<and> (\<exists>w. why (fst (post_comment_ajax e req u)) = Some w
                \<and> sublist ''comment form failed security verification'' w
                \<and> suffix (escape (errors_str e (security_errors f))) w)
         \<and> (\<exists>m pk. snd (post_comment_ajax e req u) = [TargetQueried m pk, FormConstructed])
         \<and> writes (snd (post_comment_ajax e req u)) = []"
proof -
  from assms(1) obtain ctype pk tgt m where a: "is_ajax req"
    and c: "initial_data req ''content_type'' = Some ctype"
    and p: "initial_data req ''object_pk'' = Some pk"
    and l: "lookup_target e u ctype pk = (Inr tgt, [TargetQueried m pk])"
    and f: "f = get_form e tgt (initial_data req)"
    by (rule bound_formD)
  have r: "post_comment_ajax e req u =
      (CommentPostBadRequest
         (''The comment form failed security verification: '' @
          escape (errors_str e (security_errors f))), [TargetQueried m pk, FormConstructed])"
    using post_resolved [OF a c p l f] assms(2) by simp
  have "''The comment form failed security verification: '' @ x =
        ''The '' @ ''comment form failed security verification'' @ ('': '' @ x)" for x
    by simp
  then have s: "sublist ''comment form failed security verification''
      (''The comment form failed security verification: '' @ x)" for x
    unfolding sublist_def by blast
  show ?thesis
    unfolding r by (simp add: s writes_def suffix_def del: append.simps)
qed

theorem security_errors_bad_request_witness:
  "fst (post_comment_ajax (demo_env [allow])
          (demo_request True [(''content_type'', ''blog.entry''), (''object_pk'', ''1''),
             (''comment'', ''hello''), (''preview'', ''1'')]) None) =
     CommentPostBadRequest ''The comment form failed security verification: security_hash''
   \<and> writes (snd (post_comment_ajax (demo_env [allow])
          (demo_request True [(''content_type'', ''blog.entry''), (''object_pk'', ''1''),
             (''comment'', ''hello''), (''preview'', ''1'')]) None)) = []"
  using security_errors_bad_request
    [of "demo_env [allow]"
        "demo_request True [(''content_type'', ''blog.entry''), (''object_pk'', ''1''),
             (''comment'', ''hello''), (''preview'', ''1'')]"
        None
        "demo_form (TargetObject (Model ''blog'' ''entry'') ''1'')
           (map_of [(''content_type'', ''blog.entry''), (''object_pk'', ''1''),
             (''comment'', ''hello''), (''preview'', ''1'')])"]
  by (simp add: demo_defs bound_form_def resolved_target_def initial_data_def
      lookup_target_def split1_def escape_def escape_char_def)

text \<open>
  C6. For a request with a resolvable target whose form has neither security errors nor
  validation errors and whose working set holds the key \<^verbatim>\<open>preview\<close>, the response
  is the JSON envelope (status 200, \<^verbatim>\<open>application/json\<close>) with success true,
  action \<^verbatim>\<open>preview\<close>, no errors, \<^verbatim>\<open>html\<close> the rendered comment fragment (a
  string, not null), \<^verbatim>\<open>comment_id\<close> null; nothing is written and no receiver is
  called.
\<close>

theorem preview_of_valid_form:
  assumes "bound_form e req u = Some f"
    and "security_errors f = []" and "errors f = []"
    and "initial_data req ''preview'' = Some v"
  shows "fst (post_comment_ajax e req u) =
           HttpResponse
             (JObj [(''success'', JBool True),
                    (''action'', JStr ''preview''),
                    (''errors'', JObj []),
                    (''html'',
                       JStr (render_to_string e ''comments/comment.html''
                         [(''comment'', CComment (get_comment_object f)),
                          (''action'', CStr ''preview''),
                          (''preview'', CBool True)] (Some req))),
                    (''comment_id'', JNull)])
             ''application/json''
         \<and> status_code (fst (post_comment_ajax e req u)) = 200
         \<and> writes (snd (post_comment_ajax e req u)) = []
         \<and> filter is_call (snd (post_comment_ajax e req u)) = []"
proof -
  from assms(1) obtain ctype pk tgt m where a: "is_ajax req"
    and c: "initial_data req ''content_type'' = Some ctype"
    and p: "initial_data req ''object_pk'' = Some pk"
    and l: "lookup_target e u ctype pk = (Inr tgt, [TargetQueried m pk])"
    and f: "f = get_form e tgt (initial_data req)"
    by (rule bound_formD)
  have r: "post_comment_ajax e req u =
      (ajax_result e req f ''preview'' (Some (get_comment_object f)),
       [TargetQueried m pk, FormConstructed])"
    using post_resolved [OF a c p l f] assms(2-4) by simp
  show ?thesis
    unfolding r using assms(3)
    by (simp add: ajax_result_def get_comment_object_def writes_def)
qed

theorem preview_of_valid_form_witness:
  "fst (post_comment_ajax (demo_env [allow])
          (demo_request True [(''content_type'', ''blog.entry''), (''object_pk'', ''1''),
             (''comment'', ''hello''), (''preview'', []), (''security_hash'', ''good'')])
          None) =
     HttpResponse
       (JObj [(''success'', JBool True), (''action'', JStr ''preview''), (''errors'', JObj []),
              (''html'', JStr ''comments/comment.html comment=hello action=preview preview=True''),
              (''comment_id'', JNull)])
       ''application/json''
   \<and> writes (snd (post_comment_ajax (demo_env [allow])
          (demo_request True [(''content_type'', ''blog.entry''), (''object_pk'', ''1''),
             (''comment'', ''hello''), (''preview'', []), (''security_hash'', ''good'')])
          None)) = []"
  using preview_of_valid_form
    [of "demo_env [allow]"
        "demo_request True [(''content_type'', ''blog.entry''), (''object_pk'', ''1''),
             (''comment'', ''hello''), (''preview'', []), (''security_hash'', ''good'')]"
        None
        "demo_form (TargetObject (Model ''blog'' ''entry'') ''1'')
           (map_of [(''content_type'', ''blog.entry''), (''object_pk'', ''1''),
             (''comment'', ''hello''), (''preview'', []), (''security_hash'', ''good'')])"
        "[]"]
  by (simp add: demo_defs bound_form_def resolved_target_def initial_data_def
      lookup_target_def split1_def demo_render_def get_comment_object_def)

text \<open>
  C10. For a request with a resolvable target whose working set holds the key
  \<^verbatim>\<open>preview\<close> and whose form has validation errors but no security errors, the
  response is still the JSON envelope (status 200) with action \<^verbatim>\<open>preview\<close>: success
  is false, the errors mapping is not empty and has the rendered errors of every field
  of \<^verbatim>\<open>form.errors\<close> and of no other (each the text \<^verbatim>\<open>render_to_string\<close>
  returns for the field errors template of the configured pack), \<^verbatim>\<open>html\<close> and
  \<^verbatim>\<open>comment_id\<close> are null; nothing is written.
\<close>

theorem preview_of_invalid_form:
  assumes "bound_form e req u = Some f"
    and "security_errors f = []" and "errors f \<noteq> []"
    and "initial_data req ''preview'' = Some v"
  shows "fst (post_comment_ajax e req u) =
           HttpResponse
             (JObj [(''success'', JBool False),
                    (''action'', JStr ''preview''),
                    (''errors'', JObj (json_errors e f)),
                    (''html'', JNull),
                    (''comment_id'', JNull)])
             ''application/json''
         \<and> status_code (fst (post_comment_ajax e req u)) = 200
         \<and> action_of (fst (post_comment_ajax e req u)) = Some ''preview''
         \<and> json_errors e f \<noteq> []
         \<and> (\<forall>name \<in> fst ` set (errors f).
               map_of (json_errors e f) name =
                 Some (JStr (render_to_string e
                       (CRISPY_TEMPLATE_PACK e @ ''/layout/field_errors.html'')
                       [(''field'', CField f name), (''form_show_errors'', CBool True)] None)))
         \<and> (distinct (map fst (errors f)) \<longrightarrow>
               json_errors e f =
                 map (\<lambda>name. (name, JStr (render_to_string e
                       (CRISPY_TEMPLATE_PACK e @ ''/layout/field_errors.html'')
                       [(''field'', CField f name), (''form_show_errors'', CBool True)] None)))
                   (map fst (errors f)))
         \<and> fst ` set (json_errors e f) = fst ` set (errors f)
         \<and> writes (snd (post_comment_ajax e req u)) = []"
proof -
  from assms(1) obtain ctype pk tgt m where a: "is_ajax req"
    and c: "initial_data req ''content_type'' = Some ctype"
    and p: "initial_data req ''object_pk'' = Some pk"
    and l: "lookup_target e u ctype pk = (Inr tgt, [TargetQueried m pk])"
    and f: "f = get_form e tgt (initial_data req)"
    by (rule bound_formD)
  have r: "post_comment_ajax e req u =
      (ajax_result e req f ''preview'' None, [TargetQueried m pk, FormConstructed])"
    using post_resolved [OF a c p l f] assms(2-4) by simp
  show ?thesis
    unfolding r using assms(3)
    by (simp add: ajax_result_def writes_def json_errors_lookup json_errors_keys
        json_errors_nonempty json_errors_distinct)
      (simp add: render_errors_def)
qed

theorem preview_of_invalid_form_witness:
  "fst (post_comment_ajax (demo_env [allow])
          (demo_request True [(''content_type'', ''blog.entry''), (''object_pk'', ''1''),
             (''preview'', ''1''), (''security_hash'', ''good'')])
          None) =
     HttpResponse
       (JObj [(''success'', JBool False), (''action'', JStr ''preview''),
              (''errors'',
                 JObj [(''comment'',
                        JStr ''bootstrap/layout/field_errors.html field=comment form_show_errors=True'')]),
              (''html'', JNull), (''comment_id'', JNull)])
       ''application/json''"
  using preview_of_invalid_form
    [of "demo_env [allow]"
        "demo_request True [(''content_type'', ''blog.entry''), (''object_pk'', ''1''),
             (''preview'', ''1''), (''security_hash'', ''good'')]"
        None
        "demo_form (TargetObject (Model ''blog'' ''entry'') ''1'')
           (map_of [(''content_type'', ''blog.entry''), (''object_pk'', ''1''),
             (''preview'', ''1''), (''security_hash'', ''good'')])"
        "''1''"]
  by (simp add: demo_defs bound_form_def resolved_target_def initial_data_def
      lookup_target_def split1_def json_errors_def render_errors_def demo_render_def)

text \<open>
  C7. For a request with a resolvable target whose working set has no key
  \<^verbatim>\<open>preview\<close> and whose form has validation errors but no security errors, the
  response is the JSON envelope with action \<^verbatim>\<open>post\<close> and success false. Its errors
  mapping has, for every field of \<^verbatim>\<open>form.errors\<close> and for no other key, the text
  that \<^verbatim>\<open>render_to_string\<close> returns for the template
  \<^verbatim>\<open>layout/field_errors.html\<close> of the configured pack, given the bound field and
  \<^verbatim>\<open>form_show_errors\<close> true; when the names in \<^verbatim>\<open>form.errors\<close> are distinct, as
  the keys of a dictionary are, the mapping is exactly these entries. \<^verbatim>\<open>html\<close> and
  \<^verbatim>\<open>comment_id\<close> are null; the status is 200, not 400; nothing is written and no
  receiver is called.
\<close>

theorem post_of_invalid_form:
  assumes "bound_form e req u = Some f"
    and "security_errors f = []" and "errors f \<noteq> []"
    and "initial_data req ''preview'' = None"
  shows "fst (post_comment_ajax e req u) =
           HttpResponse
             (JObj [(''success'', JBool False),
                    (''action'', JStr ''post''),
                    (''errors'', JObj (json_errors e f)),
                    (''html'', JNull),
                    (''comment_id'', JNull)])
             ''application/json''
         \<and> status_code (fst (post_comment_ajax e req u)) = 200
         \<and> (\<forall>name \<in> fst ` set (errors f).
               map_of (json_errors e f) name =
                 Some (JStr (render_to_string e
                       (CRISPY_TEMPLATE_PACK e @ ''/layout/field_errors.html'')
                       [(''field'', CField f name), (''form_show_errors'', CBool True)] None)))
         \<and> (distinct (map fst (errors f)) \<longrightarrow>
               json_errors e f =
                 map (\<lambda>name. (name, JStr (render_to_string e
                       (CRISPY_TEMPLATE_PACK e @ ''/layout/field_errors.html'')
                       [(''field'', CField f name), (''form_show_errors'', CBool True)] None)))
                   (map fst (errors f)))
         \<and> fst ` set (json_errors e f) = fst ` set (errors f)
         \<and> writes (snd (post_comment_ajax e req u)) = []
         \<and> filter is_call (snd (post_comment_ajax e req u)) = []"
proof -
  from assms(1) obtain ctype pk tgt m where a: "is_ajax req"
    and c: "initial_data req ''content_type'' = Some ctype"
    and p: "initial_data req ''object_pk'' = Some pk"
    and l: "lookup_target e u ctype pk = (Inr tgt, [TargetQueried m pk])"
    and f: "f = get_form e tgt (initial_data req)"
    by (rule bound_formD)
  have r: "post_comment_ajax e req u =
      (ajax_result e req f ''post'' None, [TargetQueried m pk, FormConstructed])"
    using post_resolved [OF a c p l f] assms(2-4) by simp
  show ?thesis
    unfolding r using assms(3)
    by (simp add: ajax_result_def writes_def json_errors_lookup json_errors_keys
        json_errors_distinct)
      (simp add: render_errors_def)
qed

theorem post_of_invalid_form_witness:
  "fst (post_comment_ajax (demo_env [allow])
          (demo_request True [(''content_type'', ''blog.entry''), (''object_pk'', ''1''),
             (''comment'', []), (''security_hash'', ''good'')])
          None) =
     HttpResponse
       (JObj [(''success'', JBool False), (''action'', JStr ''post''),
              (''errors'',
                 JObj [(''comment'',
                        JStr ''bootstrap/layout/field_errors.html field=comment form_show_errors=True'')]),
              (''html'', JNull), (''comment_id'', JNull)])
       ''application/json''
   \<and> writes (snd (post_comment_ajax (demo_env [allow])
          (demo_request True [(''content_type'', ''blog.entry''), (''object_pk'', ''1''),
             (''comment'', []), (''security_hash'', ''good'')])
          None)) = []"
  using post_of_invalid_form
    [of "demo_env [allow]"
        "demo_request True [(''content_type'', ''blog.entry''), (''object_pk'', ''1''),
             (''comment'', []), (''security_hash'', ''good'')]"
        None
        "demo_form (TargetObject (Model ''blog'' ''entry'') ''1'')
           (map_of [(''content_type'', ''blog.entry''), (''object_pk'', ''1''),
             (''comment'', []), (''security_hash'', ''good'')])"]
  by (simp add: demo_defs bound_form_def resolved_target_def initial_data_def
      lookup_target_def split1_def json_errors_def render_errors_def demo_render_def)

text \<open>
  C5. For a request whose form passes the security check, the response is the preview
  envelope exactly when the key \<^verbatim>\<open>preview\<close> is in the working set of fields, which
  is exactly when it is among the posted fields; the value plays no part, so every value
  counts as present, the empty text included, and a preview writes nothing.
\<close>

theorem preview_is_key_presence:
  assumes "bound_form e req u = Some f" and "security_errors f = []"
  shows "(action_of (fst (post_comment_ajax e req u)) = Some ''preview'')
           = (initial_data req ''preview'' \<noteq> None)
         \<and> initial_data req ''preview'' = POST req ''preview''
         \<and> (\<forall>v. POST req ''preview'' = Some v \<longrightarrow>
               action_of (fst (post_comment_ajax e req u)) = Some ''preview''
               \<and> writes (snd (post_comment_ajax e req u)) = [])"
proof -
  from assms(1) obtain ctype pk tgt m where a: "is_ajax req"
    and c: "initial_data req ''content_type'' = Some ctype"
    and p: "initial_data req ''object_pk'' = Some pk"
    and l: "lookup_target e u ctype pk = (Inr tgt, [TargetQueried m pk])"
    and f: "f = get_form e tgt (initial_data req)"
    by (rule bound_formD)
  note r = post_resolved [OF a c p l f]
  have same: "initial_data req ''preview'' = POST req ''preview''"
    by (simp add: initial_data_def Let_def)
  have yes: "action_of (fst (post_comment_ajax e req u)) = Some ''preview''
             \<and> writes (snd (post_comment_ajax e req u)) = []"
    if "initial_data req ''preview'' \<noteq> None"
    using that assms(2) unfolding r by (simp add: ajax_result_def writes_def)
  have no: "action_of (fst (post_comment_ajax e req u)) \<noteq> Some ''preview''"
    if "initial_data req ''preview'' = None"
    using that assms(2) unfolding r
    by (simp add: ajax_result_def split: option.splits)
  from yes no same show ?thesis by auto
qed

theorem preview_is_key_presence_witness:
  "action_of (fst (post_comment_ajax (demo_env [allow])
          (demo_request True [(''content_type'', ''blog.entry''), (''object_pk'', ''1''),
             (''comment'', ''hello''), (''preview'', []), (''security_hash'', ''good'')])
          None)) = Some ''preview''
   \<and> action_of (fst (post_comment_ajax (demo_env [allow])
          (demo_request True [(''content_type'', ''blog.entry''), (''object_pk'', ''1''),
             (''comment'', ''hello''), (''security_hash'', ''good'')])
          None)) \<noteq> Some ''preview''"
  using preview_is_key_presence
    [of "demo_env [allow]"
        "demo_request True [(''content_type'', ''blog.entry''), (''object_pk'', ''1''),
             (''comment'', ''hello''), (''preview'', []), (''security_hash'', ''good'')]"
        None
        "demo_form (TargetObject (Model ''blog'' ''entry'') ''1'')
           (map_of [(''content_type'', ''blog.entry''), (''object_pk'', ''1''),
             (''comment'', ''hello''), (''preview'', []), (''security_hash'', ''good'')])"]
    preview_is_key_presence
    [of "demo_env [allow]"
        "demo_request True [(''content_type'', ''blog.entry''), (''object_pk'', ''1''),
             (''comment'', ''hello''), (''security_hash'', ''good'')]"
        None
        "demo_form (TargetObject (Model ''blog'' ''entry'') ''1'')
           (map_of [(''content_type'', ''blog.entry''), (''object_pk'', ''1''),
             (''comment'', ''hello''), (''security_hash'', ''good'')])"]
  by (simp add: demo_defs bound_form_def resolved_target_def initial_data_def
      lookup_target_def split1_def)

text \<open>
  C2, as stated, fails: the receivers registered after the one that vetoes are called
  all the same. With the receivers \<^verbatim>\<open>allow\<close>, \<^verbatim>\<open>spam_filter\<close> and \<^verbatim>\<open>audit\<close>
  registered in this order, \<^verbatim>\<open>spam_filter\<close> answers \<^verbatim>\<open>False\<close>, the response is
  the bad request that names it, and \<^verbatim>\<open>audit\<close> has been called after it.
\<close>

theorem veto_later_receiver_called_counterexample:
  "fst (post_comment_ajax (demo_env [allow, spam_filter, audit])
          (demo_request True [(''content_type'', ''blog.entry''), (''object_pk'', ''1''),
             (''comment'', ''hello''), (''security_hash'', ''good'')])
          None) =
     CommentPostBadRequest
       (''comment_will_be_posted receiver '' @ [CHR 0x27] @ ''spam_filter'' @ [CHR 0x27] @
        '' killed the comment'')
   \<and> filter is_call (snd (post_comment_ajax (demo_env [allow, spam_filter, audit])
          (demo_request True [(''content_type'', ''blog.entry''), (''object_pk'', ''1''),
             (''comment'', ''hello''), (''security_hash'', ''good'')])
          None)) =
     [Called ''comment_will_be_posted'' (Some ''allow''),
      Called ''comment_will_be_posted'' (Some ''spam_filter''),
      Called ''comment_will_be_posted'' (Some ''audit'')]"
  by (simp add: post_comment_ajax_def demo_defs initial_data_def lookup_target_def split1_def
      send_def new_comment_def get_comment_object_def Let_def
      repr_str_def repr_quote_def repr_char_def)

text \<open>
  C2, as amended. On the path that would save the comment (resolvable target, form
  without security or validation errors, no preview), let \<open>r\<close> be the first receiver
  of \<^verbatim>\<open>comment_will_be_posted\<close>, in the order of registration, whose response equals
  \<^verbatim>\<open>False\<close>. If \<open>r\<close> has a \<^verbatim>\<open>__name__\<close>, the response is the bad request
  (status 400) whose message gives that name in the conversion \<^verbatim>\<open>%r\<close>: for a name of
  plain characters, the name between single quotes. The comment is not saved and no
  receiver of \<^verbatim>\<open>comment_was_posted\<close> is called. Every receiver of
  \<^verbatim>\<open>comment_will_be_posted\<close> has been called, also those registered after \<open>r\<close>:
  \<^verbatim>\<open>send\<close> calls them all before the view looks at the responses, and only the
  loop over the responses stops at the first veto.
\<close>

theorem veto_kills_comment:
  fixes e :: env and req :: request and u :: "string option"
  defines "resp \<equiv> fst (post_comment_ajax e req u)"
    and "log \<equiv> snd (post_comment_ajax e req u)"
  assumes "bound_form e req u = Some f"
    and "security_errors f = []" and "errors f = []"
    and "initial_data req ''preview'' = None"
    and "comment_will_be_posted e = before @ r # after"
    and "\<forall>x\<in>set before. \<not> vetoes req (new_comment req f) x"
    and "vetoes req (new_comment req f) r"
  shows "(\<forall>name. receiver_name r = Some name \<longrightarrow>
            resp = CommentPostBadRequest
                     (''comment_will_be_posted receiver '' @ repr_str name @
                      '' killed the comment'')
            \<and> status_code resp = 400
            \<and> ((\<forall>c\<in>set name. plain c) \<longrightarrow>
                 why resp = Some (''comment_will_be_posted receiver '' @ [CHR 0x27] @ name @
                                  [CHR 0x27] @ '' killed the comment'')))
         \<and> (receiver_name r = None \<longrightarrow> resp = Uncaught AttributeError)
         \<and> writes log = []
         \<and> (\<exists>m pk. log =
               [TargetQueried m pk, FormConstructed] @
               map (\<lambda>x. Called ''comment_will_be_posted'' (receiver_name x)) before @
               [Called ''comment_will_be_posted'' (receiver_name r)] @
               map (\<lambda>x. Called ''comment_will_be_posted'' (receiver_name x)) after)
         \<and> (\<forall>name. Called ''comment_was_posted'' name \<notin> set log)"
proof -
  from assms(3) obtain ctype pk tgt m where a: "is_ajax req"
    and c: "initial_data req ''content_type'' = Some ctype"
    and p: "initial_data req ''object_pk'' = Some pk"
    and l: "lookup_target e u ctype pk = (Inr tgt, [TargetQueried m pk])"
    and f: "f = get_form e tgt (initial_data req)"
    by (rule bound_formD)
  have k: "killed_by (fst (send ''comment_will_be_posted'' (comment_will_be_posted e)
                             (new_comment req f) req)) = Some r"
    using killed_by_first [OF assms(8,9)] assms(7) by (simp add: send_def)
  have r: "post_comment_ajax e req u =
      ((case receiver_name r of
          None \<Rightarrow> Uncaught AttributeError
        | Some name \<Rightarrow>
            CommentPostBadRequest
              (''comment_will_be_posted receiver '' @ repr_str name @ '' killed the comment'')),
       [TargetQueried m pk, FormConstructed] @
       map (\<lambda>x. Called ''comment_will_be_posted'' (receiver_name x)) before @
       [Called ''comment_will_be_posted'' (receiver_name r)] @
       map (\<lambda>x. Called ''comment_will_be_posted'' (receiver_name x)) after)"
    using post_resolved [OF a c p l f] assms(4-7) k by (simp add: send_def)
  have named: "resp = CommentPostBadRequest
                     (''comment_will_be_posted receiver '' @ repr_str name @
                      '' killed the comment'')
            \<and> status_code resp = 400
            \<and> ((\<forall>c\<in>set name. plain c) \<longrightarrow>
                 why resp = Some (''comment_will_be_posted receiver '' @ [CHR 0x27] @ name @
                                  [CHR 0x27] @ '' killed the comment''))"
    if "receiver_name r = Some name" for name
    using that repr_str_plain [of name] by (auto simp: resp_def r)
  have nameless: "resp = Uncaught AttributeError" if "receiver_name r = None"
    using that by (simp add: resp_def r)
  have w: "writes log = []"
    by (simp add: log_def r writes_def)
  have calls: "\<exists>m pk. log =
               [TargetQueried m pk, FormConstructed] @
               map (\<lambda>x. Called ''comment_will_be_posted'' (receiver_name x)) before @
               [Called ''comment_will_be_posted'' (receiver_name r)] @
               map (\<lambda>x. Called ''comment_will_be_posted'' (receiver_name x)) after"
    unfolding log_def r by auto
  have post: "\<forall>name. Called ''comment_was_posted'' name \<notin> set log"
    by (auto simp: log_def r)
  from named nameless w calls post show ?thesis by blast
qed

theorem veto_kills_comment_witness:
  "fst (post_comment_ajax (demo_env [allow, spam_filter, audit])
          (demo_request True [(''content_type'', ''blog.entry''), (''object_pk'', ''1''),
             (''comment'', ''hello''), (''security_hash'', ''good'')])
          None) =
     CommentPostBadRequest
       (''comment_will_be_posted receiver '' @ [CHR 0x27] @ ''spam_filter'' @ [CHR 0x27] @
        '' killed the comment'')
   \<and> writes (snd (post_comment_ajax (demo_env [allow, spam_filter, audit])
          (demo_request True [(''content_type'', ''blog.entry''), (''object_pk'', ''1''),
             (''comment'', ''hello''), (''security_hash'', ''good'')])
          None)) = []
   \<and> fst (post_comment_ajax (demo_env [audit, blocker])
          (demo_request True [(''content_type'', ''blog.entry''), (''object_pk'', ''1''),
             (''comment'', ''hello''), (''security_hash'', ''good'')])
          None) = Uncaught AttributeError"
  using veto_kills_comment
    [of "demo_env [allow, spam_filter, audit]"
        "demo_request True [(''content_type'', ''blog.entry''), (''object_pk'', ''1''),
             (''comment'', ''hello''), (''security_hash'', ''good'')]"
        None
        "demo_form (TargetObject (Model ''blog'' ''entry'') ''1'')
           (map_of [(''content_type'', ''blog.entry''), (''object_pk'', ''1''),
             (''comment'', ''hello''), (''security_hash'', ''good'')])"
        "[allow]" spam_filter "[audit]"]
    veto_kills_comment
    [of "demo_env [audit, blocker]"
        "demo_request True [(''content_type'', ''blog.entry''), (''object_pk'', ''1''),
             (''comment'', ''hello''), (''security_hash'', ''good'')]"
        None
        "demo_form (TargetObject (Model ''blog'' ''entry'') ''1'')
           (map_of [(''content_type'', ''blog.entry''), (''object_pk'', ''1''),
             (''comment'', ''hello''), (''security_hash'', ''good'')])"
        "[audit]" blocker "[]"]
  by (simp add: demo_defs blocker_def bound_form_def resolved_target_def initial_data_def
      lookup_target_def split1_def vetoes_def repr_str_def repr_quote_def repr_char_def
      Let_def)

text \<open>
  C1. The comment is written exactly when the request comes as far as the form (an Ajax
  call with a resolvable target), the key \<^verbatim>\<open>preview\<close> is absent, the form has no
  security errors and no validation errors, and no receiver of
  \<^verbatim>\<open>comment_will_be_posted\<close> vetoes the comment. On every other path nothing is
  written; in particular no bad request (status 400) comes with a write. There is never
  more than one write.
\<close>

theorem comment_saved_iff:
  "(writes (snd (post_comment_ajax e req u)) \<noteq> []) =
     (\<exists>f. bound_form e req u = Some f
          \<and> initial_data req ''preview'' = None
          \<and> security_errors f = []
          \<and> errors f = []
          \<and> (\<forall>r\<in>set (comment_will_be_posted e). \<not> vetoes req (new_comment req f) r))
   \<and> length (writes (snd (post_comment_ajax e req u))) \<le> 1
   \<and> (status_code (fst (post_comment_ajax e req u)) = 400 \<longrightarrow>
        writes (snd (post_comment_ajax e req u)) = [])"
proof (cases "bound_form e req u")
  case None
  then show ?thesis by (simp add: bound_form_None)
next
  case (Some f)
  then obtain ctype pk tgt m where a: "is_ajax req"
    and c: "initial_data req ''content_type'' = Some ctype"
    and p: "initial_data req ''object_pk'' = Some pk"
    and l: "lookup_target e u ctype pk = (Inr tgt, [TargetQueried m pk])"
    and f: "f = get_form e tgt (initial_data req)"
    by (rule bound_formD)
  note r = post_resolved [OF a c p l f]
  let ?c = "new_comment req f"
  let ?k = "killed_by (fst (send ''comment_will_be_posted'' (comment_will_be_posted e) ?c req))"
  have k: "(?k = None) = (\<forall>r\<in>set (comment_will_be_posted e). \<not> vetoes req ?c r)"
    using killed_by_None [of ?c req "comment_will_be_posted e"] by (simp add: send_def)
  have ws: "filter is_write (snd (send signal rs c' req')) = []" for signal rs c' req'
    using writes_send [of signal rs c' req'] by (simp add: writes_def)
  consider (security) "security_errors f \<noteq> []"
    | (preview) "security_errors f = []" "initial_data req ''preview'' \<noteq> None"
    | (invalid) "security_errors f = []" "initial_data req ''preview'' = None" "errors f \<noteq> []"
    | (veto) x where "security_errors f = []" "initial_data req ''preview'' = None"
        "errors f = []" "?k = Some x"
    | (save) "security_errors f = []" "initial_data req ''preview'' = None"
        "errors f = []" "?k = None"
    by (cases ?k) auto
  then show ?thesis
  proof cases
    case security
    then show ?thesis unfolding r using Some by (simp add: writes_def)
  next
    case preview
    then show ?thesis unfolding r using Some by (simp add: writes_def ajax_result_def)
  next
    case invalid
    then show ?thesis unfolding r using Some by (simp add: writes_def ajax_result_def)
  next
    case veto
    have "\<not> (\<forall>r\<in>set (comment_will_be_posted e). \<not> vetoes req ?c r)"
      using k veto(4) by simp
    with veto show ?thesis unfolding r using Some
      by (simp add: writes_def ws)
  next
    case save
    have "\<forall>r\<in>set (comment_will_be_posted e). \<not> vetoes req ?c r"
      using k save(4) by simp
    with save show ?thesis unfolding r using Some
      by (simp add: writes_def ws ajax_result_def)
  qed
qed

theorem comment_saved_iff_witness:
  "writes (snd (post_comment_ajax (demo_env [allow, audit])
          (demo_request True [(''content_type'', ''blog.entry''), (''object_pk'', ''1''),
             (''comment'', ''hello''), (''security_hash'', ''good'')])
          None)) \<noteq> []
   \<and> writes (snd (post_comment_ajax (demo_env [allow, spam_filter])
          (demo_request True [(''content_type'', ''blog.entry''), (''object_pk'', ''1''),
             (''comment'', ''hello''), (''security_hash'', ''good'')])
          None)) = []"
  using comment_saved_iff
    [of "demo_env [allow, audit]"
        "demo_request True [(''content_type'', ''blog.entry''), (''object_pk'', ''1''),
             (''comment'', ''hello''), (''security_hash'', ''good'')]"
        None]
    comment_saved_iff
    [of "demo_env [allow, spam_filter]"
        "demo_request True [(''content_type'', ''blog.entry''), (''object_pk'', ''1''),
             (''comment'', ''hello''), (''security_hash'', ''good'')]"
        None]
  by (simp add: demo_defs bound_form_def resolved_target_def initial_data_def
      lookup_target_def split1_def vetoes_def)









end
